theory Spec2Isabelle
  imports Main "HOL-Library.Sublist"
begin

section \<open>Device drivers for NVIDIA GPUs: the data model\<close>

text \<open>
  The embedding follows the Go file of package \<open>daemon\<close> that registers the NVIDIA
  device drivers. Pointers that the code dereferences without a check become options
  whose \<open>None\<close> is a panic of the model; slices are lists (a nil slice is the empty
  list: the code only ever asks for \<open>len\<close>, or for \<open>!= nil\<close> of a slice that is
  nil exactly when nothing was appended to it); Go's \<open>int\<close> is \<open>int\<close> (the code
  compares \<open>Count\<close> with zero and counts up to it, and never does arithmetic that
  could wrap).
\<close>

subsection \<open>Errors\<close>

text \<open>
  The error values the code builds or passes on: the package-level
  \<open>errConflictCountDeviceIDs\<close>; whatever \<open>exec.LookPath\<close> reports (here
  \<open>execError name\<close>, the name not found); the \<open>incompatibleDeviceRequest\<close> struct with
  the driver name and the capability groups; \<open>fmt.Errorf\<close> with a \<open>%w\<close> verb, which
  wraps one error behind a message; \<open>errors.Join\<close>, which wraps a list of errors; and
  \<open>driverError\<close>, any error of a driver this file does not define.
\<close>

datatype error =
    errConflictCountDeviceIDs
  | execError string
  | incompatibleDeviceRequest string "string list list"
  | wrapError string error
  | joinError "error list"
  | driverError string

text \<open>
  What a call of type \<open>func(*specs.Spec, *deviceInstance) error\<close> does besides changing
  the specification: it returns an error value (\<open>nil\<close> is \<open>None\<close>), or it does
  not return (\<open>Panic\<close>: a panic, or a \<open>make\<close> the host cannot satisfy).
\<close>

datatype outcome = Return "error option" | Panic

subsection \<open>The runtime specification\<close>

text \<open>
  \<open>specs.Hook\<close>, \<open>specs.Hooks\<close>, and the fields of \<open>specs.Process\<close> and
  \<open>specs.Spec\<close> that the code reads or writes. The other fields of the last two are
  kept as one opaque component each, so that a driver defined elsewhere can change them.
\<close>

record Hook =
  Path :: string
  Args :: "string list"
  HookEnv :: "string list"
  Timeout :: "int option"

record Hooks =
  Prestart :: "Hook list"
  CreateRuntime :: "Hook list"
  CreateContainer :: "Hook list"
  StartContainer :: "Hook list"
  Poststart :: "Hook list"
  Poststop :: "Hook list"

record 'p Process =
  Env :: "string list"
  processRest :: 'p

record ('p, 'r) Spec =
  Process :: "'p Process option"
  Hooks :: "Hooks option"
  specRest :: 'r

subsection \<open>Device requests, device instances, drivers\<close>

text \<open>\<open>container.DeviceRequest\<close>.\<close>

record DeviceRequest =
  Driver :: string
  Count :: int
  DeviceIDs :: "string list"
  Capabilities :: "string list list"
  Options :: "string \<rightharpoonup> string"

text \<open>
  Modelled from the spec: the struct \<open>deviceInstance\<close> is declared in a file of the
  package that is not among the sources; it pairs the request with the capability
  labels the chosen driver recognizes (the code ranges over \<open>selectedCaps\<close> as a
  slice of strings).
\<close>

record deviceInstance =
  req :: DeviceRequest
  selectedCaps :: "string list"

type_synonym ('p, 'r) specUpdater =
  "('p, 'r) Spec \<Rightarrow> deviceInstance \<Rightarrow> outcome \<times> ('p, 'r) Spec"

text \<open>
  Modelled from the spec: the struct \<open>deviceDriver\<close> is declared in a file of the
  package that is not among the sources; a capability set (nil: not advertised) and a
  mutation function, which is a Go func value and so may be nil.
\<close>

record ('p, 'r) deviceDriver =
  capset :: "string set option"
  updateSpec :: "('p, 'r) specUpdater option"

text \<open>
  The host: what \<open>exec.LookPath\<close> answers for a file name, what \<open>os.Environ\<close>
  returns, and the largest length for which \<open>make([]string, n)\<close> returns. Beyond
  the limit of the runtime (the largest allocation divided by the size of a string
  header; \<open>2^44\<close> elements on a 64-bit Linux) \<open>make\<close> panics with
  \<open>len out of range\<close>, and a slice the host has no memory for ends the process.
\<close>

record host =
  lookPath :: "string \<Rightarrow> error + string"
  environ :: "string list"
  maxSliceLen :: nat

section \<open>Library functions the code calls\<close>

text \<open>\<open>strconv.Itoa\<close>: the decimal digits, most significant first, a minus sign before
  a negative number.\<close>

fun formatBits :: "nat \<Rightarrow> string" where
  "formatBits n =
     (if n < 10 then [''0123456789'' ! n]
      else formatBits (n div 10) @ [''0123456789'' ! (n mod 10)])"

declare formatBits.simps [simp del]

definition Itoa :: "int \<Rightarrow> string" where
  "Itoa i = (if i < 0 then CHR ''-'' # formatBits (nat (- i)) else formatBits (nat i))"

text \<open>\<open>strings.Join\<close>.\<close>

fun strings_Join :: "string list \<Rightarrow> string \<Rightarrow> string" where
  "strings_Join [] sep = []"
| "strings_Join [e] sep = e"
| "strings_Join (e # es) sep = e @ sep @ strings_Join es sep"

text \<open>
  \<open>strings.SplitN\<close> for a separator that is not empty and a count that is not negative:
  cut at the first occurrence of the separator while more than one piece may still be
  produced. \<open>cutAt sep s\<close> is the text before and after the first occurrence of
  \<open>sep\<close> in \<open>s\<close>.
\<close>

fun cutAt :: "string \<Rightarrow> string \<Rightarrow> (string \<times> string) option" where
  "cutAt sep [] = (if sep = [] then Some ([], []) else None)"
| "cutAt sep (c # cs) =
     (if take (length sep) (c # cs) = sep then Some ([], drop (length sep) (c # cs))
      else (case cutAt sep cs of
              None \<Rightarrow> None
            | Some (before, after) \<Rightarrow> Some (c # before, after)))"

fun SplitN :: "string \<Rightarrow> string \<Rightarrow> nat \<Rightarrow> string list" where
  "SplitN s sep 0 = []"
| "SplitN s sep (Suc 0) = [s]"
| "SplitN s sep (Suc (Suc n)) =
     (case cutAt sep s of
        None \<Rightarrow> [s]
      | Some (before, after) \<Rightarrow> before # SplitN after sep (Suc n))"

text \<open>\<open>errors.Join\<close>: nil when every argument is nil, else a \<open>joinError\<close> of the
  arguments that are not nil, in order.\<close>

definition errors_Join :: "error option list \<Rightarrow> error option" where
  "errors_Join errs =
     (let es = List.map_filter (\<lambda>e. e) errs
      in if es = [] then None else Some (joinError es))"

section \<open>The code\<close>

definition nvidiaContainerRuntimeHookExecutableName :: string where
  "nvidiaContainerRuntimeHookExecutableName = ''nvidia-container-runtime-hook''"

definition allNvidiaCaps :: "string set" where
  "allNvidiaCaps =
     {''compute'', ''compat32'', ''graphics'', ''utility'', ''video'', ''display''}"

subsection \<open>countToDevices and getRequestedDevicesIDs\<close>

text \<open>
  \<open>countToDevices\<close> makes a slice of \<open>count\<close> empty strings (\<open>make\<close> panics when
  the length is negative or more than the host allows) and then stores
  \<open>strconv.Itoa(i)\<close> at every index. The host is a parameter of the model.
\<close>

function countToDevices_loop :: "nat \<Rightarrow> string list \<Rightarrow> string list" where
  "countToDevices_loop i devices =
     (if i < length devices
      then countToDevices_loop (Suc i) (devices[i := Itoa (int i)])
      else devices)"
  by pat_completeness auto
termination
  by (relation "measure (\<lambda>(i, devices). length devices - i)") auto

declare countToDevices_loop.simps [simp del]

definition countToDevices :: "host \<Rightarrow> int \<Rightarrow> string list option" where
  "countToDevices h count =
     (if count < 0 \<or> int (maxSliceLen h) < count then None
      else Some (countToDevices_loop 0 (replicate (nat count) [])))"

text \<open>
  The \<open>switch\<close> of \<open>getRequestedDevicesIDs\<close>, case by case, and the \<open>return nil\<close>
  after it. \<open>None\<close> is a call that does not return (\<open>make\<close> in
  \<open>countToDevices\<close>).
\<close>

definition getRequestedDevicesIDs :: "host \<Rightarrow> DeviceRequest \<Rightarrow> string list option" where
  "getRequestedDevicesIDs h r =
     (if length (DeviceIDs r) > 0 then Some (DeviceIDs r)
      else if Count r > 0 then countToDevices h (Count r)
      else if Count r < 0 then Some [''all'']
      else if Count r = 0 then Some []
      else Some [])"

subsection \<open>setNvidiaGPUs\<close>

text \<open>
  The loop over \<open>dev.selectedCaps\<close> appends the labels found in \<open>allNvidiaCaps\<close> to
  \<open>nvidiaCaps\<close>, which starts nil.
\<close>

definition nvidiaCapsOf :: "string list \<Rightarrow> string list" where
  "nvidiaCapsOf caps =
     foldl (\<lambda>nvidiaCaps c. if c \<in> allNvidiaCaps then nvidiaCaps @ [c] else nvidiaCaps)
       [] caps"

text \<open>\<open>s.Process.Env = append(s.Process.Env, e)\<close>; \<open>s.Process\<close> is a pointer, and the
  assignment panics when it is nil.\<close>

definition appendEnv :: "string \<Rightarrow> ('p, 'r) Spec \<Rightarrow> ('p, 'r) Spec option" where
  "appendEnv e s =
     (case Process s of
        None \<Rightarrow> None
      | Some p \<Rightarrow> Some (s\<lparr>Process := Some (p\<lparr>Env := Env p @ [e]\<rparr>)\<rparr>))"

text \<open>\<open>&specs.Hooks{}\<close>.\<close>

definition emptyHooks :: Hooks where
  "emptyHooks =
     \<lparr>Prestart = [], CreateRuntime = [], CreateContainer = [], StartContainer = [],
      Poststart = [], Poststop = []\<rparr>"

text \<open>The end of \<open>setNvidiaGPUs\<close>: \<open>s.Hooks\<close> is allocated when it is nil, and the
  hook goes to the end of \<open>s.Hooks.Prestart\<close>.\<close>

definition appendPrestart :: "Hook \<Rightarrow> ('p, 'r) Spec \<Rightarrow> ('p, 'r) Spec" where
  "appendPrestart hk s =
     (let hooks = (case Hooks s of None \<Rightarrow> emptyHooks | Some hooks \<Rightarrow> hooks)
      in s\<lparr>Hooks := Some (hooks\<lparr>Prestart := Prestart hooks @ [hk]\<rparr>)\<rparr>)"

definition setNvidiaGPUs :: "host \<Rightarrow> ('p, 'r) specUpdater" where
  "setNvidiaGPUs h s dev =
     (let r = req dev in
      if Count r \<noteq> 0 \<and> length (DeviceIDs r) > 0
      then (Return (Some errConflictCountDeviceIDs), s)
      else
        (case getRequestedDevicesIDs h r of
           None \<Rightarrow> (Panic, s)
         | Some deviceIDs \<Rightarrow>
             if length deviceIDs = 0 then (Return None, s)
             else
               (case appendEnv (''NVIDIA_VISIBLE_DEVICES='' @ strings_Join deviceIDs '','') s of
                  None \<Rightarrow> (Panic, s)
                | Some s1 \<Rightarrow>
                    let nvidiaCaps = nvidiaCapsOf (selectedCaps dev) in
                    (case (if nvidiaCaps \<noteq> []
                           then appendEnv
                                  (''NVIDIA_DRIVER_CAPABILITIES='' @ strings_Join nvidiaCaps '','')
                                  s1
                           else Some s1) of
                       None \<Rightarrow> (Panic, s1)
                     | Some s2 \<Rightarrow>
                         (case lookPath h nvidiaContainerRuntimeHookExecutableName of
                            Inl err \<Rightarrow> (Return (Some err), s2)
                          | Inr path \<Rightarrow>
                              (Return None,
                               appendPrestart
                                 \<lparr>Path = path,
                                  Args = [nvidiaContainerRuntimeHookExecutableName, ''prestart''],
                                  HookEnv = environ h,
                                  Timeout = None\<rparr>
                                 s2))))))"

subsection \<open>The CDI device injector\<close>

record cdiDeviceInjector =
  defaultCDIDeviceKind :: string

definition normalizeDeviceID :: "cdiDeviceInjector \<Rightarrow> string \<Rightarrow> string" where
  "normalizeDeviceID i deviceID =
     (let parts = SplitN deviceID ''='' 2
      in if length parts = 2 then deviceID
         else defaultCDIDeviceKind i @ ''='' @ deviceID)"

text \<open>The loop of \<open>injectDevices\<close> that appends the normalized identifiers to
  \<open>cdiDeviceIDs\<close>, which starts nil.\<close>

definition normalizeAll :: "cdiDeviceInjector \<Rightarrow> string list \<Rightarrow> string list" where
  "normalizeAll i ids =
     foldl (\<lambda>cdiDeviceIDs deviceID. cdiDeviceIDs @ [normalizeDeviceID i deviceID]) [] ids"

text \<open>Calling a func value: a nil one panics.\<close>

definition callUpdateSpec ::
  "('p, 'r) deviceDriver \<Rightarrow> ('p, 'r) specUpdater" where
  "callUpdateSpec d s dev =
     (case updateSpec d of None \<Rightarrow> (Panic, s) | Some f \<Rightarrow> f s dev)"

text \<open>
  The device instance \<open>injectDevices\<close> hands to the CDI driver: a copy of the request
  with \<open>Count\<close>, \<open>Options\<close> and \<open>DeviceIDs\<close> overwritten, and no selected
  capabilities.
\<close>

definition cdiDeviceInstanceOf :: "deviceInstance \<Rightarrow> string list \<Rightarrow> deviceInstance" where
  "cdiDeviceInstanceOf dev cdiDeviceIDs =
     (let cdiRequest = (req dev)\<lparr>Count := 0, Options := Map.empty, DeviceIDs := cdiDeviceIDs\<rparr>
      in \<lparr>req = cdiRequest, selectedCaps = []\<rparr>)"

text \<open>
  \<open>injectDevices\<close>. The registry \<open>deviceDrivers\<close> is a package-level map declared in
  a file that is not among the sources; it is a parameter here (a nil entry and a
  missing entry both read as nil), and so is the host the call runs on.
\<close>

definition injectDevices ::
  "host \<Rightarrow> cdiDeviceInjector \<Rightarrow> (string \<rightharpoonup> ('p, 'r) deviceDriver) \<Rightarrow>
   ('p, 'r) specUpdater" where
  "injectDevices h i deviceDrivers s dev =
     (case getRequestedDevicesIDs h (req dev) of
        None \<Rightarrow> (Panic, s)
      | Some ids \<Rightarrow>
          let cdiDeviceIDs = normalizeAll i ids in
          if length cdiDeviceIDs = 0 then (Return None, s)
          else
            (case deviceDrivers ''cdi'' of
               None \<Rightarrow>
                 (Return (Some (wrapError ''no CDI device driver registered: ''
                    (incompatibleDeviceRequest (Driver (req dev)) (Capabilities (req dev))))),
                  s)
             | Some cdiDeviceDriver \<Rightarrow>
                 callUpdateSpec cdiDeviceDriver s (cdiDeviceInstanceOf dev cdiDeviceIDs)))"

subsection \<open>firstSuccessful\<close>

text \<open>
  The loop of \<open>firstSuccessful\<close> with the errors joined so far: a nil handler is
  skipped, a handler that returns an error adds it to \<open>errs\<close> and the loop goes on
  with the specification as the handler left it (the handlers share the pointer
  \<open>s\<close>), a handler that returns nil ends the call.
\<close>

fun firstSuccessful_loop ::
  "error option \<Rightarrow> ('p, 'r) specUpdater option list \<Rightarrow> ('p, 'r) specUpdater" where
  "firstSuccessful_loop errs [] s dev = (Return errs, s)"
| "firstSuccessful_loop errs (None # h) s dev = firstSuccessful_loop errs h s dev"
| "firstSuccessful_loop errs (Some handler # h) s dev =
     (case handler s dev of
        (Return (Some err), s') \<Rightarrow> firstSuccessful_loop (errors_Join [errs, Some err]) h s' dev
      | (Return None, s') \<Rightarrow> (Return None, s')
      | (Panic, s') \<Rightarrow> (Panic, s'))"

definition firstSuccessful :: "('p, 'r) specUpdater option list \<Rightarrow> ('p, 'r) specUpdater" where
  "firstSuccessful h s dev = firstSuccessful_loop None h s dev"

section \<open>Notions the properties are stated with\<close>

text \<open>The environment list and the hook lists of a specification; a nil
  \<open>Process\<close> or \<open>Hooks\<close> has none.\<close>

definition envOf :: "('p, 'r) Spec \<Rightarrow> string list" where
  "envOf s = (case Process s of None \<Rightarrow> [] | Some p \<Rightarrow> Env p)"

definition hooksOf :: "('p, 'r) Spec \<Rightarrow> Hooks" where
  "hooksOf s = (case Hooks s of None \<Rightarrow> emptyHooks | Some hooks \<Rightarrow> hooks)"

text \<open>
  \<open>appendedTo s s'\<close>: the environment list and each hook list of \<open>s\<close> is a prefix
  of the same list of \<open>s'\<close>, so every entry of \<open>s\<close> is still there, unchanged and
  in its place. An updater appends only when this holds of every call.
\<close>

definition appendedTo :: "('p, 'r) Spec \<Rightarrow> ('p, 'r) Spec \<Rightarrow> bool" where
  "appendedTo s s' \<longleftrightarrow>
     prefix (envOf s) (envOf s')
     \<and> prefix (Prestart (hooksOf s)) (Prestart (hooksOf s'))
     \<and> prefix (CreateRuntime (hooksOf s)) (CreateRuntime (hooksOf s'))
     \<and> prefix (CreateContainer (hooksOf s)) (CreateContainer (hooksOf s'))
     \<and> prefix (StartContainer (hooksOf s)) (StartContainer (hooksOf s'))
     \<and> prefix (Poststart (hooksOf s)) (Poststart (hooksOf s'))
     \<and> prefix (Poststop (hooksOf s)) (Poststop (hooksOf s'))"

definition appendsOnly :: "('p, 'r) specUpdater \<Rightarrow> bool" where
  "appendsOnly f \<longleftrightarrow> (\<forall>s dev. appendedTo s (snd (f s dev)))"

text \<open>
  \<open>allFail h s dev\<close> runs the handlers of \<open>h\<close> that are not nil, in order, each on
  the specification the one before left and on the same device instance; when every
  one of them returns an error it is the list of these errors and the last
  specification.
\<close>

fun allFail ::
  "('p, 'r) specUpdater option list \<Rightarrow> ('p, 'r) Spec \<Rightarrow> deviceInstance \<Rightarrow>
   (error list \<times> ('p, 'r) Spec) option" where
  "allFail [] s dev = Some ([], s)"
| "allFail (None # h) s dev = allFail h s dev"
| "allFail (Some handler # h) s dev =
     (case handler s dev of
        (Return (Some err), s') \<Rightarrow>
          (case allFail h s' dev of
             None \<Rightarrow> None
           | Some (errs, s'') \<Rightarrow> Some (err # errs, s''))
      | (Return None, s') \<Rightarrow> None
      | (Panic, s') \<Rightarrow> None)"

text \<open>
  The errors \<open>errors.Is\<close> and \<open>errors.As\<close> visit from an error: the error itself
  and, through \<open>Unwrap\<close>, what a \<open>wrapError\<close> and a \<open>joinError\<close> wrap.
\<close>

fun unwrapTree :: "error \<Rightarrow> error list" where
  "unwrapTree (wrapError msg e) = wrapError msg e # unwrapTree e"
| "unwrapTree (joinError es) = joinError es # concat (map unwrapTree es)"
| "unwrapTree e = [e]"

section \<open>A concrete host, registry, specification and requests\<close>

text \<open>A host where every helper is found under \<open>/usr/bin\<close>, and one where none is;
  both allow slices of up to \<open>2^44\<close> strings.\<close>

definition hostWithHook :: host where
  "hostWithHook =
     \<lparr>lookPath = (\<lambda>file. Inr (''/usr/bin/'' @ file)), environ = [''PATH=/usr/bin''],
      maxSliceLen = 17592186044416\<rparr>"

definition hostWithoutHook :: host where
  "hostWithoutHook =
     \<lparr>lookPath = (\<lambda>file. Inl (execError file)), environ = [''PATH=/usr/bin''],
      maxSliceLen = 17592186044416\<rparr>"

text \<open>
  A specification with one environment entry and no hooks; the rest of the
  specification is the list of CDI device names injected so far.
\<close>

definition baseSpec :: "(unit, string list) Spec" where
  "baseSpec =
     \<lparr>Process = Some \<lparr>Env = [''PATH=/bin''], processRest = ()\<rparr>,
      Hooks = None,
      specRest = []\<rparr>"

text \<open>A stand-in for the CDI driver: it records the device names it is asked for.\<close>

definition cdiStub :: "(unit, string list) specUpdater" where
  "cdiStub s dev = (Return None, s\<lparr>specRest := specRest s @ DeviceIDs (req dev)\<rparr>)"

definition noDrivers :: "string \<rightharpoonup> (unit, string list) deviceDriver" where
  "noDrivers = Map.empty"

definition cdiRegistered :: "string \<rightharpoonup> (unit, string list) deviceDriver" where
  "cdiRegistered = [''cdi'' \<mapsto> \<lparr>capset = None, updateSpec = Some cdiStub\<rparr>]"

definition nvidiaInjector :: cdiDeviceInjector where
  "nvidiaInjector = \<lparr>defaultCDIDeviceKind = ''nvidia.com/gpu''\<rparr>"

definition gpuRequest :: "int \<Rightarrow> string list \<Rightarrow> DeviceRequest" where
  "gpuRequest count ids =
     \<lparr>Driver = ''nvidia'', Count = count, DeviceIDs = ids,
      Capabilities = [[''gpu'', ''compute'']], Options = Map.empty\<rparr>"

definition gpuInstance :: "int \<Rightarrow> string list \<Rightarrow> deviceInstance" where
  "gpuInstance count ids =
     \<lparr>req = gpuRequest count ids, selectedCaps = [''gpu'', ''compute'']\<rparr>"

text \<open>
  A CDI driver that records the device instance it is called with, a specification
  whose rest is the list of these instances, and a device instance whose request
  has a count, an option and capability groups, with two selected capabilities.
\<close>

definition cdiProbe :: "(unit, deviceInstance list) specUpdater" where
  "cdiProbe s dev = (Return None, s\<lparr>specRest := specRest s @ [dev]\<rparr>)"

definition probeSpec :: "(unit, deviceInstance list) Spec" where
  "probeSpec =
     \<lparr>Process = Some \<lparr>Env = [''PATH=/bin''], processRest = ()\<rparr>,
      Hooks = None,
      specRest = []\<rparr>"

definition probeRegistered :: "string \<rightharpoonup> (unit, deviceInstance list) deviceDriver" where
  "probeRegistered = [''cdi'' \<mapsto> \<lparr>capset = None, updateSpec = Some cdiProbe\<rparr>]"

definition countedInstance :: deviceInstance where
  "countedInstance =
     \<lparr>req = \<lparr>Driver = ''nvidia'', Count = 2, DeviceIDs = [],
              Capabilities = [[''gpu'', ''compute'']],
              Options = [''mode'' \<mapsto> ''exclusive'']\<rparr>,
      selectedCaps = [''gpu'', ''compute'']\<rparr>"

section \<open>The loops, in closed form\<close>

lemma countToDevices_loop_eq:
  "i \<le> length ds \<Longrightarrow>
   countToDevices_loop i ds = take i ds @ map (\<lambda>k. Itoa (int k)) [i..<length ds]"
proof (induction i ds rule: countToDevices_loop.induct)
  case (1 i devices)
  show ?case
  proof (cases "i < length devices")
    case True
    have "countToDevices_loop i devices
          = countToDevices_loop (Suc i) (devices[i := Itoa (int i)])"
      using True by (subst countToDevices_loop.simps) simp
    also have "\<dots> = take (Suc i) (devices[i := Itoa (int i)])
                   @ map (\<lambda>k. Itoa (int k)) [Suc i..<length devices]"
      using 1(1)[OF True] True by simp
    also have "take (Suc i) (devices[i := Itoa (int i)]) = take i devices @ [Itoa (int i)]"
      using True by (simp add: take_Suc_conv_app_nth)
    finally show ?thesis
      using True by (simp add: upt_conv_Cons)
  next
    case False
    with 1(2) have "i = length devices" by simp
    then show ?thesis by (subst countToDevices_loop.simps) simp
  qed
qed

lemma countToDevices_eq:
  "0 \<le> n \<Longrightarrow> n \<le> int (maxSliceLen h) \<Longrightarrow>
   countToDevices h n = Some (map (\<lambda>k. Itoa (int k)) [0..<nat n])"
  by (simp add: countToDevices_def countToDevices_loop_eq)

lemma countToDevices_too_many:
  "int (maxSliceLen h) < n \<Longrightarrow> countToDevices h n = None"
  by (simp add: countToDevices_def)

lemma normalizeAll_acc:
  "foldl (\<lambda>cdiDeviceIDs deviceID. cdiDeviceIDs @ [normalizeDeviceID i deviceID]) acc ids
   = acc @ map (normalizeDeviceID i) ids"
  by (induction ids arbitrary: acc) simp_all

lemma normalizeAll_map: "normalizeAll i ids = map (normalizeDeviceID i) ids"
  by (simp add: normalizeAll_def normalizeAll_acc)

lemma nvidiaCapsOf_acc:
  "foldl (\<lambda>nvidiaCaps c. if c \<in> allNvidiaCaps then nvidiaCaps @ [c] else nvidiaCaps) acc caps
   = acc @ filter (\<lambda>c. c \<in> allNvidiaCaps) caps"
  by (induction caps arbitrary: acc) simp_all

lemma nvidiaCapsOf_filter: "nvidiaCapsOf caps = filter (\<lambda>c. c \<in> allNvidiaCaps) caps"
  by (simp add: nvidiaCapsOf_def nvidiaCapsOf_acc)

text \<open>A string is cut in two at a one-character separator exactly when the character
  occurs in it.\<close>

lemma cutAt_eq_None: "cutAt [c] s = None \<longleftrightarrow> c \<notin> set s"
  by (induction s) (auto split: option.splits)

lemma SplitN_2_length: "length (SplitN s [c] 2) = 2 \<longleftrightarrow> c \<in> set s"
proof -
  have "SplitN s [c] 2 = (case cutAt [c] s of None \<Rightarrow> [s] | Some (b, a) \<Rightarrow> [b, a])"
    by (simp add: numeral_2_eq_2 split: option.splits)
  then show ?thesis
    using cutAt_eq_None[of c s] by (auto split: option.splits)
qed

lemma normalizeDeviceID_eq:
  "normalizeDeviceID i deviceID =
     (if CHR ''='' \<in> set deviceID then deviceID else defaultCDIDeviceKind i @ ''='' @ deviceID)"
  using SplitN_2_length[of deviceID "CHR ''=''"] by (simp add: normalizeDeviceID_def Let_def)

section \<open>Resolving the requested device identifiers\<close>

text \<open>
  C3. For every device request, the list \<open>getRequestedDevicesIDs\<close> returns is: the
  explicit \<open>DeviceIDs\<close> when that list is not empty; otherwise the decimal numerals
  of \<open>0, 1, ..., N - 1\<close> in this order when \<open>Count = N > 0\<close>; otherwise the
  one-element list \<open>["all"]\<close> when \<open>Count < 0\<close>; otherwise (\<open>Count = 0\<close>, no
  \<open>DeviceIDs\<close>) the empty list. The call returns whenever the request has explicit
  identifiers or its \<open>Count\<close> is no more than the length of a slice of strings the
  host can make.
\<close>

theorem getRequestedDevicesIDs_resolved:
  "(DeviceIDs r \<noteq> [] \<or> Count r \<le> int (maxSliceLen h) \<longrightarrow>
      getRequestedDevicesIDs h r =
        Some (if DeviceIDs r \<noteq> [] then DeviceIDs r
              else if 0 < Count r then map (\<lambda>k. Itoa (int k)) [0..<nat (Count r)]
              else if Count r < 0 then [''all'']
              else []))
   \<and> (getRequestedDevicesIDs h r = Some ids \<longrightarrow>
        ids = (if DeviceIDs r \<noteq> [] then DeviceIDs r
               else if 0 < Count r then map (\<lambda>k. Itoa (int k)) [0..<nat (Count r)]
               else if Count r < 0 then [''all'']
               else []))"
proof -
  let ?resolved = "if DeviceIDs r \<noteq> [] then DeviceIDs r
               else if 0 < Count r then map (\<lambda>k. Itoa (int k)) [0..<nat (Count r)]
               else if Count r < 0 then [''all'']
               else []"
  have returns: "getRequestedDevicesIDs h r = Some ?resolved"
    if "DeviceIDs r \<noteq> [] \<or> Count r \<le> int (maxSliceLen h)"
  proof (cases "DeviceIDs r = []")
    case False
    then show ?thesis by (simp add: getRequestedDevicesIDs_def)
  next
    case True
    with that have "Count r \<le> int (maxSliceLen h)" by simp
    with True show ?thesis
      by (cases "0 < Count r") (simp_all add: getRequestedDevicesIDs_def countToDevices_eq)
  qed
  have result: "ids = ?resolved" if ret: "getRequestedDevicesIDs h r = Some ids"
  proof (cases "DeviceIDs r \<noteq> [] \<or> Count r \<le> int (maxSliceLen h)")
    case True
    from returns[OF True] ret show ?thesis by simp
  next
    case False
    then have "DeviceIDs r = []" and "int (maxSliceLen h) < Count r" by simp_all
    moreover from this have "0 < Count r" by linarith
    ultimately have "getRequestedDevicesIDs h r = None"
      by (simp add: getRequestedDevicesIDs_def countToDevices_too_many)
    with ret show ?thesis by simp
  qed
  from returns result show ?thesis by blast
qed

theorem getRequestedDevicesIDs_resolved_witness:
  "getRequestedDevicesIDs hostWithHook (gpuRequest 0 [''GPU-8a'', ''1''])
     = Some [''GPU-8a'', ''1'']
   \<and> getRequestedDevicesIDs hostWithHook (gpuRequest 3 []) = Some [''0'', ''1'', ''2'']
   \<and> getRequestedDevicesIDs hostWithHook (gpuRequest 12 []) =
       Some [''0'', ''1'', ''2'', ''3'', ''4'', ''5'', ''6'', ''7'', ''8'', ''9'', ''10'', ''11'']
   \<and> getRequestedDevicesIDs hostWithHook (gpuRequest (- 1) []) = Some [''all'']
   \<and> getRequestedDevicesIDs hostWithHook (gpuRequest 0 []) = Some []"
proof -
  note returns = getRequestedDevicesIDs_resolved [THEN conjunct1, rule_format]
  have limit: "maxSliceLen hostWithHook = 17592186044416"
    by (simp add: hostWithHook_def)
  have "getRequestedDevicesIDs hostWithHook (gpuRequest 0 [''GPU-8a'', ''1''])
     = Some [''GPU-8a'', ''1'']"
    using returns [of "gpuRequest 0 [''GPU-8a'', ''1'']" hostWithHook]
    by (simp add: gpuRequest_def)
  moreover have "getRequestedDevicesIDs hostWithHook (gpuRequest 3 [])
     = Some [''0'', ''1'', ''2'']"
    using returns [of "gpuRequest 3 []" hostWithHook]
    by (simp add: gpuRequest_def limit Itoa_def formatBits.simps upt_conv_Cons)
  moreover have "getRequestedDevicesIDs hostWithHook (gpuRequest 12 []) =
       Some [''0'', ''1'', ''2'', ''3'', ''4'', ''5'', ''6'', ''7'', ''8'', ''9'', ''10'', ''11'']"
    using returns [of "gpuRequest 12 []" hostWithHook]
    by (simp add: gpuRequest_def limit Itoa_def formatBits.simps upt_conv_Cons)
  moreover have "getRequestedDevicesIDs hostWithHook (gpuRequest (- 1) []) = Some [''all'']"
    using returns [of "gpuRequest (- 1) []" hostWithHook]
    by (simp add: gpuRequest_def limit)
  moreover have "getRequestedDevicesIDs hostWithHook (gpuRequest 0 []) = Some []"
    using returns [of "gpuRequest 0 []" hostWithHook]
    by (simp add: gpuRequest_def limit)
  ultimately show ?thesis by (intro conjI)
qed

text \<open>A count beyond what the host can allocate: \<open>make\<close> does not return.\<close>

lemma getRequestedDevicesIDs_too_many:
  "DeviceIDs r = [] \<Longrightarrow> int (maxSliceLen h) < Count r \<Longrightarrow> getRequestedDevicesIDs h r = None"
  by (simp add: getRequestedDevicesIDs_def countToDevices_too_many)

text \<open>
  C8. For every device request whose \<open>DeviceIDs\<close> are not empty,
  \<open>getRequestedDevicesIDs\<close> returns exactly that list, whatever \<open>Count\<close> is: a
  request that sets both is resolved from its explicit identifiers.
\<close>

theorem getRequestedDevicesIDs_explicit_ids:
  assumes "DeviceIDs r \<noteq> []"
  shows "getRequestedDevicesIDs h r = Some (DeviceIDs r)"
proof -
  from assms have "0 < length (DeviceIDs r)" by simp
  then show ?thesis unfolding getRequestedDevicesIDs_def by (simp only: if_True)
qed

theorem getRequestedDevicesIDs_explicit_ids_witness:
  "DeviceIDs (gpuRequest 3 [''GPU-8a'', ''1'']) \<noteq> []
   \<and> Count (gpuRequest 3 [''GPU-8a'', ''1'']) = 3
   \<and> getRequestedDevicesIDs hostWithHook (gpuRequest 3 [''GPU-8a'', ''1'']) = Some [''GPU-8a'', ''1'']
   \<and> getRequestedDevicesIDs hostWithHook (gpuRequest (- 1) [''0'']) = Some [''0'']"
  using getRequestedDevicesIDs_explicit_ids [of "gpuRequest 3 [''GPU-8a'', ''1'']" hostWithHook]
    getRequestedDevicesIDs_explicit_ids [of "gpuRequest (- 1) [''0'']" hostWithHook]
  by (simp add: gpuRequest_def)

section \<open>Normalizing device identifiers\<close>

text \<open>
  C5 at an identifier with two \<open>=\<close>. The documentation of \<open>normalizeDeviceID\<close>
  returns an identifier as it is only when it is a fully-qualified CDI device name
  and has every other one prefixed with the default kind, and the claim passes
  through the identifiers with exactly one \<open>=\<close>. The code tests only whether
  \<open>strings.SplitN\<close> with limit two yields two parts: \<open>"a=b=c"\<close>, which contains
  two separators, is returned unchanged and not prefixed. The two examples of the
  claim come out as it says.
\<close>

theorem normalizeDeviceID_two_separators:
  "count_list ''a=b=c'' (CHR ''='') = 2
   \<and> SplitN ''a=b=c'' ''='' 2 = [''a'', ''b=c'']
   \<and> normalizeDeviceID nvidiaInjector ''a=b=c'' = ''a=b=c''
   \<and> normalizeDeviceID nvidiaInjector ''a=b=c'' \<noteq> ''nvidia.com/gpu=a=b=c''
   \<and> normalizeDeviceID nvidiaInjector ''0'' = ''nvidia.com/gpu=0''
   \<and> normalizeDeviceID nvidiaInjector ''vendor/class=7'' = ''vendor/class=7''"
  by (simp add: normalizeDeviceID_def nvidiaInjector_def numeral_2_eq_2)

text \<open>
  C10. \<open>normalizeDeviceID\<close> is idempotent: for every identifier and every default
  kind, normalizing a normalized identifier returns it unchanged.
\<close>

theorem normalizeDeviceID_idempotent:
  "normalizeDeviceID i (normalizeDeviceID i deviceID) = normalizeDeviceID i deviceID"
proof (cases "CHR ''='' \<in> set deviceID")
  case True
  then show ?thesis by (simp add: normalizeDeviceID_eq)
next
  case False
  then have "normalizeDeviceID i deviceID = defaultCDIDeviceKind i @ ''='' @ deviceID"
    by (simp add: normalizeDeviceID_eq)
  moreover have "CHR ''='' \<in> set (defaultCDIDeviceKind i @ ''='' @ deviceID)"
    by simp
  ultimately show ?thesis by (simp add: normalizeDeviceID_eq)
qed

section \<open>Facts about the updaters\<close>

text \<open>\<open>injectDevices\<close> with its loop in closed form.\<close>

lemma injectDevices_eq:
  "injectDevices h i drivers s dev =
     (case getRequestedDevicesIDs h (req dev) of
        None \<Rightarrow> (Panic, s)
      | Some ids \<Rightarrow>
          if ids = [] then (Return None, s)
          else
            (case drivers ''cdi'' of
               None \<Rightarrow>
                 (Return (Some (wrapError ''no CDI device driver registered: ''
                    (incompatibleDeviceRequest (Driver (req dev)) (Capabilities (req dev))))),
                  s)
             | Some d \<Rightarrow>
                 callUpdateSpec d s (cdiDeviceInstanceOf dev (map (normalizeDeviceID i) ids))))"
  by (simp add: injectDevices_def normalizeAll_map Let_def split: option.splits)

text \<open>What the loop of \<open>firstSuccessful\<close> does with nil handlers, and with a run of
  handlers that all fail.\<close>

lemma errors_Join_step:
  "errors_Join [acc, Some e] =
     Some (joinError (case acc of None \<Rightarrow> [e] | Some a \<Rightarrow> [a, e]))"
  by (cases acc) (simp_all add: errors_Join_def List.map_filter_simps)

lemma firstSuccessful_loop_skips_nil:
  "firstSuccessful_loop errs (filter (\<lambda>handler. handler \<noteq> None) h) s dev
   = firstSuccessful_loop errs h s dev"
proof (induction errs h s dev rule: firstSuccessful_loop.induct)
  case (1 errs s dev)
  show ?case by simp
next
  case (2 errs h s dev)
  then show ?case by simp
next
  case (3 errs handler h s dev)
  obtain out s' where call: "handler s dev = (out, s')" by (cases "handler s dev")
  show ?case
  proof (cases out)
    case Panic
    with call show ?thesis by simp
  next
    case (Return r)
    show ?thesis
    proof (cases r)
      case None
      with call Return show ?thesis by simp
    next
      case (Some err)
      with call Return 3 show ?thesis by simp
    qed
  qed
qed

lemma firstSuccessful_loop_allFail:
  "allFail pre s dev = Some (es, s1) \<Longrightarrow>
   firstSuccessful_loop errs (pre @ rest) s dev
   = firstSuccessful_loop (foldl (\<lambda>acc e. errors_Join [acc, Some e]) errs es) rest s1 dev"
proof (induction pre arbitrary: s errs es)
  case Nil
  then show ?case by simp
next
  case (Cons x pre)
  show ?case
  proof (cases x)
    case None
    with Cons show ?thesis by simp
  next
    case (Some handler)
    obtain out s' where call: "handler s dev = (out, s')" by (cases "handler s dev")
    from Cons.prems Some call obtain err where out: "out = Return (Some err)"
      by (cases out) (auto split: option.splits)
    from Cons.prems Some call out obtain es' where
      tl: "allFail pre s' dev = Some (es', s1)" and es: "es = err # es'"
      by (auto split: option.splits)
    from Cons.IH[OF tl, of "errors_Join [errs, Some err]"]
    show ?thesis using Some call out es by simp
  qed
qed

lemma foldl_join_preserves:
  "acc \<noteq> None \<or> es \<noteq> [] \<Longrightarrow>
   \<exists>j. foldl (\<lambda>acc e. errors_Join [acc, Some e]) acc es = Some j
       \<and> set es \<subseteq> set (unwrapTree j)
       \<and> (\<forall>a. acc = Some a \<longrightarrow> set (unwrapTree a) \<subseteq> set (unwrapTree j))"
proof (induction es arbitrary: acc)
  case Nil
  then show ?case by auto
next
  case (Cons e es)
  let ?acc' = "errors_Join [acc, Some e]"
  obtain j' where j': "?acc' = Some j'" and
    j'_def: "j' = joinError (case acc of None \<Rightarrow> [e] | Some a \<Rightarrow> [a, e])"
    using errors_Join_step[of acc e] by simp
  have "?acc' \<noteq> None \<or> es \<noteq> []" using j' by simp
  from Cons.IH[OF this] obtain j where
    j: "foldl (\<lambda>acc e. errors_Join [acc, Some e]) ?acc' es = Some j"
    and sub: "set es \<subseteq> set (unwrapTree j)"
    and up: "set (unwrapTree j') \<subseteq> set (unwrapTree j)"
    using j' by auto
  have e_in: "e \<in> set (unwrapTree j')"
    by (cases e; cases acc) (simp_all add: j'_def)
  have acc_in: "\<And>a. acc = Some a \<Longrightarrow> set (unwrapTree a) \<subseteq> set (unwrapTree j')"
    by (auto simp: j'_def)
  show ?case using j sub up e_in acc_in by auto
qed


text \<open>The updaters on the concrete host, registry and specification.\<close>

lemmas example_defs =
  hostWithHook_def hostWithoutHook_def baseSpec_def cdiStub_def noDrivers_def
  cdiRegistered_def nvidiaInjector_def gpuRequest_def gpuInstance_def
  cdiProbe_def probeSpec_def probeRegistered_def countedInstance_def

lemmas setNvidiaGPUs_unfold =
  setNvidiaGPUs_def Let_def getRequestedDevicesIDs_def countToDevices_eq Itoa_def
  formatBits.simps appendEnv_def appendPrestart_def emptyHooks_def nvidiaCapsOf_filter
  allNvidiaCaps_def nvidiaContainerRuntimeHookExecutableName_def

lemmas injectDevices_unfold =
  injectDevices_eq getRequestedDevicesIDs_def countToDevices_eq Itoa_def formatBits.simps
  normalizeDeviceID_eq callUpdateSpec_def cdiDeviceInstanceOf_def

lemma count1_no_cdi:
  "injectDevices hostWithHook nvidiaInjector noDrivers baseSpec (gpuInstance 1 [])
   = (Return (Some (wrapError ''no CDI device driver registered: ''
                (incompatibleDeviceRequest ''nvidia'' [[''gpu'', ''compute'']]))),
      baseSpec)"
  by (simp add: injectDevices_unfold example_defs)

lemma count1_no_hook:
  "setNvidiaGPUs hostWithoutHook baseSpec (gpuInstance 1 [])
   = (Return (Some (execError ''nvidia-container-runtime-hook'')),
      baseSpec\<lparr>
        Process := Some \<lparr>Env = [''PATH=/bin'', ''NVIDIA_VISIBLE_DEVICES=0'',
                                 ''NVIDIA_DRIVER_CAPABILITIES=compute''],
                          processRest = ()\<rparr>\<rparr>)"
  by (simp add: setNvidiaGPUs_unfold example_defs)

lemma count1_hook:
  "setNvidiaGPUs hostWithHook baseSpec (gpuInstance 1 [])
   = (Return None,
      baseSpec\<lparr>
        Process := Some \<lparr>Env = [''PATH=/bin'', ''NVIDIA_VISIBLE_DEVICES=0'',
                                 ''NVIDIA_DRIVER_CAPABILITIES=compute''],
                          processRest = ()\<rparr>,
        Hooks := Some (emptyHooks\<lparr>Prestart :=
                   [\<lparr>Path = ''/usr/bin/nvidia-container-runtime-hook'',
                     Args = [''nvidia-container-runtime-hook'', ''prestart''],
                     HookEnv = [''PATH=/usr/bin''], Timeout = None\<rparr>]\<rparr>)\<rparr>)"
  by (simp add: setNvidiaGPUs_unfold example_defs)

section \<open>The composite dispatcher\<close>

text \<open>
  C2. For every list \<open>h\<close> of handlers, \<open>firstSuccessful\<close>: skips the nil entries
  (the result is that of the list without them); calls the others in order, each on
  the specification the one before left and on the same device instance (\<open>allFail\<close>),
  and when the handlers of \<open>pre\<close> have all failed and the next handler returns nil
  it returns nil at once with the specification that handler left, whatever comes
  after it in the list (\<open>rest\<close> is not called: the result does not depend on it);
  when all the handlers that are not nil fail, it returns one error from which every
  error they returned is reached by unwrapping, and the specification the last one
  left; and it returns nil and leaves the specification alone when the list is empty
  or holds nothing but nil.
\<close>

theorem firstSuccessful_contract:
  "firstSuccessful h s dev = firstSuccessful (filter (\<lambda>handler. handler \<noteq> None) h) s dev
   \<and> (allFail pre s dev = Some (errs, s1) \<and> handler s1 dev = (Return None, s2) \<longrightarrow>
        firstSuccessful (pre @ Some handler # rest) s dev = (Return None, s2))
   \<and> (allFail h s dev = Some (errs, s1) \<and> errs \<noteq> [] \<longrightarrow>
        (\<exists>e. firstSuccessful h s dev = (Return (Some e), s1)
             \<and> (\<forall>err \<in> set errs. err \<in> set (unwrapTree e))))
   \<and> ((\<forall>handler \<in> set h. handler = None) \<longrightarrow> firstSuccessful h s dev = (Return None, s))"
proof (intro conjI impI)
  show "firstSuccessful h s dev = firstSuccessful (filter (\<lambda>handler. handler \<noteq> None) h) s dev"
    unfolding firstSuccessful_def by (rule firstSuccessful_loop_skips_nil[symmetric])
next
  assume "allFail pre s dev = Some (errs, s1) \<and> handler s1 dev = (Return None, s2)"
  then have pre: "allFail pre s dev = Some (errs, s1)"
    and ok: "handler s1 dev = (Return None, s2)" by simp_all
  show "firstSuccessful (pre @ Some handler # rest) s dev = (Return None, s2)"
    unfolding firstSuccessful_def firstSuccessful_loop_allFail[OF pre]
    using ok by simp
next
  assume "allFail h s dev = Some (errs, s1) \<and> errs \<noteq> []"
  then have all: "allFail h s dev = Some (errs, s1)" and ne: "errs \<noteq> []" by simp_all
  from ne obtain e where
    e: "foldl (\<lambda>acc e. errors_Join [acc, Some e]) None errs = Some e"
    and sub: "set errs \<subseteq> set (unwrapTree e)"
    using foldl_join_preserves[of None errs] by auto
  have "firstSuccessful h s dev = (Return (Some e), s1)"
    using firstSuccessful_loop_allFail[OF all, of None "[]"] e
    by (simp add: firstSuccessful_def)
  with sub show "\<exists>e. firstSuccessful h s dev = (Return (Some e), s1)
             \<and> (\<forall>err \<in> set errs. err \<in> set (unwrapTree e))"
    by auto
next
  assume "\<forall>handler \<in> set h. handler = None"
  then have empty: "filter (\<lambda>handler. handler \<noteq> None) h = []"
    by (simp add: filter_empty_conv)
  have "firstSuccessful_loop None h s dev
        = firstSuccessful_loop None (filter (\<lambda>handler. handler \<noteq> None) h) s dev"
    by (rule firstSuccessful_loop_skips_nil[symmetric])
  also have "\<dots> = firstSuccessful_loop None [] s dev"
    by (simp only: empty)
  finally show "firstSuccessful h s dev = (Return None, s)"
    by (simp add: firstSuccessful_def)
qed



theorem firstSuccessful_contract_witness:
  "firstSuccessful
     [None, Some (injectDevices hostWithHook nvidiaInjector noDrivers), None,
      Some (setNvidiaGPUs hostWithHook), Some (setNvidiaGPUs hostWithoutHook)]
     baseSpec (gpuInstance 1 [])
   = (Return None,
      baseSpec\<lparr>
        Process := Some \<lparr>Env = [''PATH=/bin'', ''NVIDIA_VISIBLE_DEVICES=0'',
                                 ''NVIDIA_DRIVER_CAPABILITIES=compute''],
                          processRest = ()\<rparr>,
        Hooks := Some (emptyHooks\<lparr>Prestart :=
                   [\<lparr>Path = ''/usr/bin/nvidia-container-runtime-hook'',
                     Args = [''nvidia-container-runtime-hook'', ''prestart''],
                     HookEnv = [''PATH=/usr/bin''], Timeout = None\<rparr>]\<rparr>)\<rparr>)
   \<and> allFail [Some (injectDevices hostWithHook nvidiaInjector noDrivers), None,
               Some (setNvidiaGPUs hostWithoutHook)] baseSpec (gpuInstance 1 [])
     = Some ([wrapError ''no CDI device driver registered: ''
                (incompatibleDeviceRequest ''nvidia'' [[''gpu'', ''compute'']]),
              execError ''nvidia-container-runtime-hook''],
             baseSpec\<lparr>
               Process := Some \<lparr>Env = [''PATH=/bin'', ''NVIDIA_VISIBLE_DEVICES=0'',
                                        ''NVIDIA_DRIVER_CAPABILITIES=compute''],
                                 processRest = ()\<rparr>\<rparr>)
   \<and> (\<exists>e. firstSuccessful
                  [Some (injectDevices hostWithHook nvidiaInjector noDrivers), None,
                   Some (setNvidiaGPUs hostWithoutHook)] baseSpec (gpuInstance 1 [])
             = (Return (Some e),
                baseSpec\<lparr>
                  Process := Some \<lparr>Env = [''PATH=/bin'', ''NVIDIA_VISIBLE_DEVICES=0'',
                                           ''NVIDIA_DRIVER_CAPABILITIES=compute''],
                                    processRest = ()\<rparr>\<rparr>)
          \<and> wrapError ''no CDI device driver registered: ''
               (incompatibleDeviceRequest ''nvidia'' [[''gpu'', ''compute'']])
             \<in> set (unwrapTree e)
          \<and> execError ''nvidia-container-runtime-hook'' \<in> set (unwrapTree e))
   \<and> firstSuccessful [None, None] baseSpec (gpuInstance 1 []) = (Return None, baseSpec)
   \<and> firstSuccessful [] baseSpec (gpuInstance 1 []) = (Return None, baseSpec)
   \<and> firstSuccessful [None, Some (injectDevices hostWithHook nvidiaInjector noDrivers), None]
         baseSpec (gpuInstance 1 [])
       = firstSuccessful [Some (injectDevices hostWithHook nvidiaInjector noDrivers)]
           baseSpec (gpuInstance 1 [])"
proof -
  let ?dev = "gpuInstance 1 []"
  let ?cdi = "injectDevices hostWithHook nvidiaInjector noDrivers"
  let ?e1 = "wrapError ''no CDI device driver registered: ''
               (incompatibleDeviceRequest ''nvidia'' [[''gpu'', ''compute'']])"
  let ?e2 = "execError ''nvidia-container-runtime-hook''"
  let ?s1 = "baseSpec\<lparr>
               Process := Some \<lparr>Env = [''PATH=/bin'', ''NVIDIA_VISIBLE_DEVICES=0'',
                                        ''NVIDIA_DRIVER_CAPABILITIES=compute''],
                                 processRest = ()\<rparr>\<rparr>"
  let ?s2 = "?s1\<lparr>Hooks := Some (emptyHooks\<lparr>Prestart :=
                   [\<lparr>Path = ''/usr/bin/nvidia-container-runtime-hook'',
                     Args = [''nvidia-container-runtime-hook'', ''prestart''],
                     HookEnv = [''PATH=/usr/bin''], Timeout = None\<rparr>]\<rparr>)\<rparr>"
  have pre: "allFail [None, Some ?cdi, None] baseSpec ?dev = Some ([?e1], baseSpec)"
    by (simp add: count1_no_cdi)
  have ok: "setNvidiaGPUs hostWithHook baseSpec ?dev = (Return None, ?s2)"
    by (simp add: count1_hook)
  have all: "allFail [Some ?cdi, None, Some (setNvidiaGPUs hostWithoutHook)] baseSpec ?dev
             = Some ([?e1, ?e2], ?s1)"
    by (simp add: count1_no_cdi count1_no_hook)
  note nil_skipped = firstSuccessful_contract [THEN conjunct1]
  note first_success = firstSuccessful_contract [THEN conjunct2, THEN conjunct1, rule_format]
  note all_failed =
    firstSuccessful_contract [THEN conjunct2, THEN conjunct2, THEN conjunct1, rule_format]
  note only_nil =
    firstSuccessful_contract [THEN conjunct2, THEN conjunct2, THEN conjunct2, rule_format]
  have first: "firstSuccessful
     ([None, Some ?cdi, None] @ Some (setNvidiaGPUs hostWithHook)
        # [Some (setNvidiaGPUs hostWithoutHook)]) baseSpec ?dev = (Return None, ?s2)"
    using pre ok by (intro first_success conjI)
  have joined: "\<exists>e. firstSuccessful [Some ?cdi, None, Some (setNvidiaGPUs hostWithoutHook)]
                       baseSpec ?dev = (Return (Some e), ?s1)
                  \<and> (\<forall>err \<in> set [?e1, ?e2]. err \<in> set (unwrapTree e))"
    using all by (intro all_failed conjI) simp_all
  have nils: "firstSuccessful [None, None] baseSpec ?dev = (Return None, baseSpec)"
    by (rule only_nil) simp
  have none: "firstSuccessful [] baseSpec ?dev = (Return None, baseSpec)"
    by (rule only_nil) simp
  have skipped: "firstSuccessful [None, Some ?cdi, None] baseSpec ?dev
                 = firstSuccessful [Some ?cdi] baseSpec ?dev"
    using nil_skipped [of "[None, Some ?cdi, None]" baseSpec ?dev] by simp
  from joined obtain e where
    "firstSuccessful [Some ?cdi, None, Some (setNvidiaGPUs hostWithoutHook)] baseSpec ?dev
     = (Return (Some e), ?s1)" "?e1 \<in> set (unwrapTree e)" "?e2 \<in> set (unwrapTree e)"
    by auto
  with first all nils none skipped show ?thesis
    by (intro conjI exI[of _ e]) simp_all
qed

section \<open>What the updaters do to the specification\<close>

lemma appendedTo_refl: "appendedTo s s"
  by (simp add: appendedTo_def)

lemma appendedTo_trans: "appendedTo s s' \<Longrightarrow> appendedTo s' s'' \<Longrightarrow> appendedTo s s''"
  unfolding appendedTo_def by (meson prefix_order.order_trans)

lemma appendEnv_appendedTo:
  assumes "appendEnv e s = Some s'"
  shows "appendedTo s s'" and "envOf s' = envOf s @ [e]" and "Hooks s' = Hooks s"
    and "specRest s' = specRest s"
    and "map_option processRest (Process s') = map_option processRest (Process s)"
  using assms
  by (auto simp: appendEnv_def appendedTo_def envOf_def hooksOf_def split: option.splits)

lemma appendPrestart_appendedTo:
  shows "appendedTo s (appendPrestart hk s)"
    and "Process (appendPrestart hk s) = Process s"
    and "specRest (appendPrestart hk s) = specRest s"
    and "Prestart (hooksOf (appendPrestart hk s)) = Prestart (hooksOf s) @ [hk]"
  by (auto simp: appendPrestart_def appendedTo_def envOf_def hooksOf_def Let_def
        split: option.splits)

text \<open>\<open>setNvidiaGPUs\<close>, branch by branch.\<close>

lemma setNvidiaGPUs_conflict:
  assumes "Count (req dev) \<noteq> 0 \<and> 0 < length (DeviceIDs (req dev))"
  shows "setNvidiaGPUs h s dev = (Return (Some errConflictCountDeviceIDs), s)"
  unfolding setNvidiaGPUs_def Let_def by (simp only: assms simp_thms if_True)

lemma setNvidiaGPUs_resolve:
  assumes "\<not> (Count (req dev) \<noteq> 0 \<and> 0 < length (DeviceIDs (req dev)))"
  shows "setNvidiaGPUs h s dev =
     (case getRequestedDevicesIDs h (req dev) of
        None \<Rightarrow> (Panic, s)
      | Some deviceIDs \<Rightarrow>
          if length deviceIDs = 0 then (Return None, s)
          else
            (case appendEnv (''NVIDIA_VISIBLE_DEVICES='' @ strings_Join deviceIDs '','') s of
               None \<Rightarrow> (Panic, s)
             | Some s1 \<Rightarrow>
                 (case (if nvidiaCapsOf (selectedCaps dev) \<noteq> []
                        then appendEnv
                               (''NVIDIA_DRIVER_CAPABILITIES=''
                                @ strings_Join (nvidiaCapsOf (selectedCaps dev)) '','')
                               s1
                        else Some s1) of
                    None \<Rightarrow> (Panic, s1)
                  | Some s2 \<Rightarrow>
                      (case lookPath h nvidiaContainerRuntimeHookExecutableName of
                         Inl err \<Rightarrow> (Return (Some err), s2)
                       | Inr path \<Rightarrow>
                           (Return None,
                            appendPrestart
                              \<lparr>Path = path,
                               Args = [nvidiaContainerRuntimeHookExecutableName, ''prestart''],
                               HookEnv = environ h,
                               Timeout = None\<rparr>
                              s2)))))"
  unfolding setNvidiaGPUs_def Let_def by (simp only: assms if_False)

text \<open>
  An invariant rule for \<open>setNvidiaGPUs\<close>: what holds of the specification it is
  given, and is kept by \<open>appendEnv\<close> and by \<open>appendPrestart\<close>, holds of the
  specification it leaves, whatever it returns.
\<close>

lemma setNvidiaGPUs_invariant:
  assumes init: "P s"
    and env: "\<And>e s0 s1. P s0 \<Longrightarrow> appendEnv e s0 = Some s1 \<Longrightarrow> P s1"
    and hook: "\<And>hk s0. P s0 \<Longrightarrow> P (appendPrestart hk s0)"
  shows "P (snd (setNvidiaGPUs h s dev))"
proof (cases "Count (req dev) \<noteq> 0 \<and> 0 < length (DeviceIDs (req dev))")
  case True
  show ?thesis using init by (simp only: setNvidiaGPUs_conflict[OF True] snd_conv)
next
  case False
  note run = setNvidiaGPUs_resolve[OF False, of h s]
  show ?thesis
  proof (cases "getRequestedDevicesIDs h (req dev)")
    case None
    then show ?thesis using init by (simp only: run simp_thms option.case snd_conv)
  next
    case (Some deviceIDs)
    let ?e1 = "''NVIDIA_VISIBLE_DEVICES='' @ strings_Join deviceIDs '',''"
    let ?caps = "nvidiaCapsOf (selectedCaps dev)"
    let ?e2 = "''NVIDIA_DRIVER_CAPABILITIES='' @ strings_Join ?caps '',''"
    show ?thesis
    proof (cases "length deviceIDs = 0")
      case True
      with Some show ?thesis using init by (simp only: run simp_thms option.case if_True snd_conv)
    next
      case nonEmpty: False
      show ?thesis
      proof (cases "appendEnv ?e1 s")
        case None
        with Some nonEmpty show ?thesis using init
          by (simp only: run simp_thms option.case if_False snd_conv)
      next
        case s1: (Some s1)
        have P1: "P s1" using env[OF init s1] .
        obtain s2opt where s2opt:
          "s2opt = (if ?caps \<noteq> [] then appendEnv ?e2 s1 else Some s1)" by simp
        show ?thesis
        proof (cases s2opt)
          case None
          with Some nonEmpty s1 s2opt[symmetric] show ?thesis using P1
            by (simp only: run simp_thms option.case if_False snd_conv)
        next
          case s2: (Some s2)
          have P2: "P s2"
          proof (cases "?caps \<noteq> []")
            case True
            with s2opt s2 have "appendEnv ?e2 s1 = Some s2" by simp
            from env[OF P1 this] show ?thesis .
          next
            case False
            with s2opt s2 have "s2 = s1" by simp
            with P1 show ?thesis by simp
          qed
          show ?thesis
          proof (cases "lookPath h nvidiaContainerRuntimeHookExecutableName")
            case (Inl err)
            with Some nonEmpty s1 s2opt[symmetric] s2 show ?thesis using P2
              by (simp only: run simp_thms option.case sum.case if_False snd_conv)
          next
            case (Inr path)
            with Some nonEmpty s1 s2opt[symmetric] s2 show ?thesis using hook[OF P2]
              by (simp only: run simp_thms option.case sum.case if_False snd_conv)
          qed
        qed
      qed
    qed
  qed
qed

lemma setNvidiaGPUs_appendedTo: "appendedTo s (snd (setNvidiaGPUs h s dev))"
proof (rule setNvidiaGPUs_invariant)
  show "appendedTo s s" by (rule appendedTo_refl)
next
  fix e s0 s1 assume "appendedTo s s0" "appendEnv e s0 = Some s1"
  then show "appendedTo s s1"
    using appendEnv_appendedTo(1) appendedTo_trans by blast
next
  fix hk s0 assume "appendedTo s s0"
  then show "appendedTo s (appendPrestart hk s0)"
    using appendPrestart_appendedTo(1) appendedTo_trans by blast
qed

lemma setNvidiaGPUs_specRest: "specRest (snd (setNvidiaGPUs h s dev)) = specRest s"
  by (rule setNvidiaGPUs_invariant)
     (simp_all add: appendEnv_appendedTo(4) appendPrestart_appendedTo(3))

lemma setNvidiaGPUs_processRest:
  "map_option processRest (Process (snd (setNvidiaGPUs h s dev)))
   = map_option processRest (Process s)"
  by (rule setNvidiaGPUs_invariant)
     (simp_all add: appendEnv_appendedTo(5) appendPrestart_appendedTo(2))

lemma setNvidiaGPUs_rejects_conflict:
  "Count (req dev) \<noteq> 0 \<Longrightarrow> DeviceIDs (req dev) \<noteq> [] \<Longrightarrow>
   setNvidiaGPUs h s dev = (Return (Some errConflictCountDeviceIDs), s)"
  by (simp add: setNvidiaGPUs_def Let_def)

lemma injectDevices_appendedTo:
  assumes "\<And>d f. drivers ''cdi'' = Some d \<Longrightarrow> updateSpec d = Some f \<Longrightarrow> appendsOnly f"
  shows "appendedTo s (snd (injectDevices h i drivers s dev))"
  using assms
  by (auto simp: injectDevices_eq callUpdateSpec_def appendedTo_refl appendsOnly_def
        split: option.splits)


text \<open>More of the updaters on the concrete host, registry and specification.\<close>

lemma cdiStub_appendsOnly: "appendsOnly cdiStub"
  by (simp add: appendsOnly_def appendedTo_def cdiStub_def envOf_def hooksOf_def)

lemma count1_cdi:
  "injectDevices hostWithHook nvidiaInjector cdiRegistered baseSpec (gpuInstance 1 [])
   = (Return None, baseSpec\<lparr>specRest := [''nvidia.com/gpu=0'']\<rparr>)"
  by (simp add: injectDevices_unfold example_defs)

lemma ids0_no_hook:
  "setNvidiaGPUs hostWithoutHook baseSpec (gpuInstance 0 [''0''])
   = (Return (Some (execError ''nvidia-container-runtime-hook'')),
      baseSpec\<lparr>
        Process := Some \<lparr>Env = [''PATH=/bin'', ''NVIDIA_VISIBLE_DEVICES=0'',
                                 ''NVIDIA_DRIVER_CAPABILITIES=compute''],
                          processRest = ()\<rparr>\<rparr>)"
  by (simp add: setNvidiaGPUs_unfold example_defs)

lemma ids0_cdi:
  "injectDevices hostWithHook nvidiaInjector cdiRegistered s (gpuInstance 0 [''0''])
   = (Return None, s\<lparr>specRest := specRest s @ [''nvidia.com/gpu=0'']\<rparr>)"
  by (simp add: injectDevices_unfold example_defs)

section \<open>The core only appends\<close>

text \<open>
  C7. The mutations the core performs only append to the environment list and to the
  hook lists. After any call of \<open>setNvidiaGPUs\<close>, whatever it returns, every entry
  that was in these lists is still there, unchanged and in its place, as a prefix
  of the new list, and the rest of the process and of the specification is as it
  was. \<open>injectDevices\<close> changes nothing itself: the specification it leaves is
  the one it was given, or the one the function of the registered \<open>cdi\<close> driver
  left when called on the one it was given; so it appends only whenever that
  function does.
\<close>

theorem core_appends_only:
  "appendedTo s (snd (setNvidiaGPUs h s dev))
   \<and> specRest (snd (setNvidiaGPUs h s dev)) = specRest s
   \<and> map_option processRest (Process (snd (setNvidiaGPUs h s dev)))
     = map_option processRest (Process s)
   \<and> (snd (injectDevices h i drivers s dev) = s
      \<or> (\<exists>d inst. drivers ''cdi'' = Some d
            \<and> injectDevices h i drivers s dev = callUpdateSpec d s inst))
   \<and> ((\<forall>d f. drivers ''cdi'' = Some d \<and> updateSpec d = Some f \<longrightarrow> appendsOnly f)
        \<longrightarrow> appendedTo s (snd (injectDevices h i drivers s dev)))"
proof (intro conjI impI)
  show "appendedTo s (snd (setNvidiaGPUs h s dev))"
    by (rule setNvidiaGPUs_appendedTo)
  show "specRest (snd (setNvidiaGPUs h s dev)) = specRest s"
    by (rule setNvidiaGPUs_specRest)
  show "map_option processRest (Process (snd (setNvidiaGPUs h s dev)))
        = map_option processRest (Process s)"
    by (rule setNvidiaGPUs_processRest)
  show "snd (injectDevices h i drivers s dev) = s
      \<or> (\<exists>d inst. drivers ''cdi'' = Some d
            \<and> injectDevices h i drivers s dev = callUpdateSpec d s inst)"
    by (auto simp: injectDevices_eq split: option.splits)
next
  assume "\<forall>d f. drivers ''cdi'' = Some d \<and> updateSpec d = Some f \<longrightarrow> appendsOnly f"
  then show "appendedTo s (snd (injectDevices h i drivers s dev))"
    by (intro injectDevices_appendedTo) blast
qed

theorem core_appends_only_witness:
  "appendedTo baseSpec (snd (setNvidiaGPUs hostWithHook baseSpec (gpuInstance 1 [])))
   \<and> envOf baseSpec = [''PATH=/bin'']
   \<and> envOf (snd (setNvidiaGPUs hostWithHook baseSpec (gpuInstance 1 [])))
     = [''PATH=/bin'', ''NVIDIA_VISIBLE_DEVICES=0'', ''NVIDIA_DRIVER_CAPABILITIES=compute'']
   \<and> appendedTo baseSpec (snd (setNvidiaGPUs hostWithoutHook baseSpec (gpuInstance 1 [])))
   \<and> appendedTo baseSpec
       (snd (injectDevices hostWithHook nvidiaInjector cdiRegistered baseSpec (gpuInstance 1 [])))
   \<and> appendedTo baseSpec
       (snd (injectDevices hostWithHook nvidiaInjector noDrivers baseSpec (gpuInstance 1 [])))"
proof -
  note hook = core_appends_only [THEN conjunct1]
  note cdi = core_appends_only [THEN conjunct2, THEN conjunct2, THEN conjunct2,
      THEN conjunct2, rule_format]
  have "appendedTo baseSpec
          (snd (injectDevices hostWithHook nvidiaInjector cdiRegistered baseSpec (gpuInstance 1 [])))"
    by (rule cdi) (auto simp: cdiRegistered_def cdiStub_appendsOnly)
  moreover have "appendedTo baseSpec
          (snd (injectDevices hostWithHook nvidiaInjector noDrivers baseSpec (gpuInstance 1 [])))"
    by (rule cdi) (simp add: noDrivers_def)
  moreover have "envOf (snd (setNvidiaGPUs hostWithHook baseSpec (gpuInstance 1 [])))
     = [''PATH=/bin'', ''NVIDIA_VISIBLE_DEVICES=0'', ''NVIDIA_DRIVER_CAPABILITIES=compute'']"
    unfolding count1_hook by (simp add: envOf_def baseSpec_def)
  moreover have "envOf baseSpec = [''PATH=/bin'']"
    by (simp add: envOf_def baseSpec_def)
  ultimately show ?thesis
    using hook [of baseSpec hostWithHook "gpuInstance 1 []"]
      hook [of baseSpec hostWithoutHook "gpuInstance 1 []"]
    by simp
qed

section \<open>The injector without a CDI driver\<close>

text \<open>
  C9. When no driver named \<open>cdi\<close> is registered, \<open>injectDevices\<close> leaves the
  specification as it was; with a normalized device list that is not empty it
  fails there with the error that wraps the incompatible device request. In
  general, a specification that differs after the call is the one the registered
  \<open>cdi\<close> driver left when called on the specification as given.
\<close>

theorem injectDevices_without_cdi_driver:
  "(drivers ''cdi'' = None \<longrightarrow> snd (injectDevices h i drivers s dev) = s)
   \<and> (drivers ''cdi'' = None \<and> getRequestedDevicesIDs h (req dev) = Some ids
        \<and> normalizeAll i ids \<noteq> [] \<longrightarrow>
        injectDevices h i drivers s dev
        = (Return (Some (wrapError ''no CDI device driver registered: ''
             (incompatibleDeviceRequest (Driver (req dev)) (Capabilities (req dev))))), s))
   \<and> (snd (injectDevices h i drivers s dev) \<noteq> s \<longrightarrow>
        (\<exists>d ids. drivers ''cdi'' = Some d
           \<and> getRequestedDevicesIDs h (req dev) = Some ids
           \<and> injectDevices h i drivers s dev
             = callUpdateSpec d s (cdiDeviceInstanceOf dev (normalizeAll i ids))))"
proof (intro conjI impI)
  assume "drivers ''cdi'' = None"
  then show "snd (injectDevices h i drivers s dev) = s"
    by (simp add: injectDevices_eq split: option.splits)
next
  assume "drivers ''cdi'' = None \<and> getRequestedDevicesIDs h (req dev) = Some ids
        \<and> normalizeAll i ids \<noteq> []"
  then show "injectDevices h i drivers s dev
        = (Return (Some (wrapError ''no CDI device driver registered: ''
             (incompatibleDeviceRequest (Driver (req dev)) (Capabilities (req dev))))), s)"
    by (simp add: injectDevices_def)
next
  assume changed: "snd (injectDevices h i drivers s dev) \<noteq> s"
  obtain ids where ids: "getRequestedDevicesIDs h (req dev) = Some ids"
    using changed by (cases "getRequestedDevicesIDs h (req dev)") (auto simp: injectDevices_eq)
  from changed ids obtain d where "drivers ''cdi'' = Some d"
    by (cases "drivers ''cdi''") (auto simp: injectDevices_eq split: if_splits)
  with changed ids show "\<exists>d ids. drivers ''cdi'' = Some d
           \<and> getRequestedDevicesIDs h (req dev) = Some ids
           \<and> injectDevices h i drivers s dev
             = callUpdateSpec d s (cdiDeviceInstanceOf dev (normalizeAll i ids))"
    by (auto simp: injectDevices_eq normalizeAll_map split: if_splits)
qed

theorem injectDevices_without_cdi_driver_witness:
  "noDrivers ''cdi'' = None
   \<and> getRequestedDevicesIDs hostWithHook (req (gpuInstance 1 [])) = Some [''0'']
   \<and> normalizeAll nvidiaInjector [''0''] = [''nvidia.com/gpu=0'']
   \<and> injectDevices hostWithHook nvidiaInjector noDrivers baseSpec (gpuInstance 1 [])
     = (Return (Some (wrapError ''no CDI device driver registered: ''
          (incompatibleDeviceRequest ''nvidia'' [[''gpu'', ''compute'']]))), baseSpec)
   \<and> snd (injectDevices hostWithHook nvidiaInjector cdiRegistered baseSpec (gpuInstance 1 [])) \<noteq> baseSpec
   \<and> (\<exists>d. cdiRegistered ''cdi'' = Some d
         \<and> injectDevices hostWithHook nvidiaInjector cdiRegistered baseSpec (gpuInstance 1 [])
           = callUpdateSpec d baseSpec
               (cdiDeviceInstanceOf (gpuInstance 1 []) [''nvidia.com/gpu=0'']))"
proof -
  have none: "noDrivers ''cdi'' = None" by (simp add: noDrivers_def)
  have ids: "getRequestedDevicesIDs hostWithHook (req (gpuInstance 1 [])) = Some [''0'']"
    by (simp add: getRequestedDevicesIDs_def countToDevices_eq Itoa_def formatBits.simps
          example_defs)
  have norm: "normalizeAll nvidiaInjector [''0''] = [''nvidia.com/gpu=0'']"
    by (simp add: normalizeAll_map normalizeDeviceID_eq nvidiaInjector_def)
  have changed:
    "snd (injectDevices hostWithHook nvidiaInjector cdiRegistered baseSpec (gpuInstance 1 [])) \<noteq> baseSpec"
    unfolding count1_cdi by (simp add: baseSpec_def)
  note fails = injectDevices_without_cdi_driver [THEN conjunct2, THEN conjunct1, rule_format]
  note only_driver =
    injectDevices_without_cdi_driver [THEN conjunct2, THEN conjunct2, rule_format]
  have failed: "injectDevices hostWithHook nvidiaInjector noDrivers baseSpec (gpuInstance 1 [])
     = (Return (Some (wrapError ''no CDI device driver registered: ''
          (incompatibleDeviceRequest (Driver (req (gpuInstance 1 [])))
             (Capabilities (req (gpuInstance 1 [])))))), baseSpec)"
    using none ids norm by (intro fails [where ids = "[''0'']"]) simp
  from only_driver [OF changed] ids norm
  have "\<exists>d. cdiRegistered ''cdi'' = Some d
         \<and> injectDevices hostWithHook nvidiaInjector cdiRegistered baseSpec (gpuInstance 1 [])
           = callUpdateSpec d baseSpec
               (cdiDeviceInstanceOf (gpuInstance 1 []) [''nvidia.com/gpu=0''])"
    by auto
  with none ids norm changed failed show ?thesis
    by (simp add: gpuInstance_def gpuRequest_def)
qed

section \<open>The CDI injector\<close>

text \<open>
  C4, as stated, fails. The device instance handed to the \<open>cdi\<close> driver is built
  from a copy of the request in which \<open>Count\<close>, \<open>Options\<close> and \<open>DeviceIDs\<close>
  are overwritten: the capability groups of the request are still in it. Here the
  registered driver records the instance it is called with; the request has the
  groups \<open>[["gpu", "compute"]]\<close>, and so has the instance the driver receives.
\<close>

theorem injectDevices_keeps_capability_groups_counterexample:
  "Capabilities (req countedInstance) = [[''gpu'', ''compute'']]
   \<and> injectDevices hostWithHook nvidiaInjector probeRegistered probeSpec countedInstance
     = (Return None,
        probeSpec\<lparr>specRest :=
          [\<lparr>req = \<lparr>Driver = ''nvidia'', Count = 0,
                    DeviceIDs = [''nvidia.com/gpu=0'', ''nvidia.com/gpu=1''],
                    Capabilities = [[''gpu'', ''compute'']], Options = Map.empty\<rparr>,
            selectedCaps = []\<rparr>]\<rparr>)
   \<and> map (\<lambda>inst. Capabilities (req inst))
         (specRest (snd (injectDevices hostWithHook nvidiaInjector probeRegistered probeSpec
                           countedInstance)))
     \<noteq> [[]]"
proof -
  have run: "injectDevices hostWithHook nvidiaInjector probeRegistered probeSpec countedInstance
     = (Return None,
        probeSpec\<lparr>specRest :=
          [\<lparr>req = \<lparr>Driver = ''nvidia'', Count = 0,
                    DeviceIDs = [''nvidia.com/gpu=0'', ''nvidia.com/gpu=1''],
                    Capabilities = [[''gpu'', ''compute'']], Options = Map.empty\<rparr>,
            selectedCaps = []\<rparr>]\<rparr>)"
    by (simp add: injectDevices_unfold example_defs upt_conv_Cons)
  have "map (\<lambda>inst. Capabilities (req inst))
         (specRest (snd (injectDevices hostWithHook nvidiaInjector probeRegistered probeSpec
                           countedInstance)))
     \<noteq> [[]]"
    unfolding run by simp
  moreover have "Capabilities (req countedInstance) = [[''gpu'', ''compute'']]"
    by (simp add: countedInstance_def)
  ultimately show ?thesis using run by (intro conjI)
qed

text \<open>
  C4, amended. Let \<open>ids\<close> be the device list \<open>injectDevices\<close> resolves from the
  request. When the normalized list is empty the call returns nil and leaves the
  specification alone; the normalized list has one name for each of \<open>ids\<close>, so for
  a resolved list that is not empty this does not happen. For such a list: when no
  driver named \<open>cdi\<close> is registered the call fails, the specification untouched,
  with the error that wraps an \<open>incompatibleDeviceRequest\<close> of the request's driver
  name and capability groups; otherwise it is the call of the \<open>cdi\<close> driver's
  function on the same specification and on a new device instance whose request
  has the normalized names as \<open>DeviceIDs\<close>, \<open>Count\<close> zero and no \<open>Options\<close>,
  and which has no selected capabilities; the driver name and the capability
  groups of the request are carried over as they are. A registered driver whose
  function is nil makes the call panic.
\<close>

theorem injectDevices_delegates:
  assumes "getRequestedDevicesIDs h (req dev) = Some ids"
  shows
  "(normalizeAll i ids = [] \<longrightarrow> injectDevices h i drivers s dev = (Return None, s))
   \<and> normalizeAll i ids = map (normalizeDeviceID i) ids
   \<and> (ids \<noteq> [] \<longrightarrow> normalizeAll i ids \<noteq> [])
   \<and> (ids \<noteq> [] \<and> drivers ''cdi'' = None \<longrightarrow>
        injectDevices h i drivers s dev
        = (Return (Some (wrapError ''no CDI device driver registered: ''
             (incompatibleDeviceRequest (Driver (req dev)) (Capabilities (req dev))))), s))
   \<and> (ids \<noteq> [] \<and> drivers ''cdi'' = Some d \<and> updateSpec d = Some f \<longrightarrow>
        injectDevices h i drivers s dev
        = f s \<lparr>req = \<lparr>Driver = Driver (req dev), Count = 0,
                       DeviceIDs = map (normalizeDeviceID i) ids,
                       Capabilities = Capabilities (req dev), Options = Map.empty\<rparr>,
                selectedCaps = []\<rparr>)
   \<and> (ids \<noteq> [] \<and> drivers ''cdi'' = Some d \<and> updateSpec d = None \<longrightarrow>
        injectDevices h i drivers s dev = (Panic, s))"
proof (intro conjI impI)
  assume "normalizeAll i ids = []"
  with assms show "injectDevices h i drivers s dev = (Return None, s)"
    by (simp add: injectDevices_def)
next
  show "normalizeAll i ids = map (normalizeDeviceID i) ids"
    by (rule normalizeAll_map)
next
  assume "ids \<noteq> []"
  then show "normalizeAll i ids \<noteq> []" by (simp add: normalizeAll_map)
next
  assume "ids \<noteq> [] \<and> drivers ''cdi'' = None"
  with assms show "injectDevices h i drivers s dev
        = (Return (Some (wrapError ''no CDI device driver registered: ''
             (incompatibleDeviceRequest (Driver (req dev)) (Capabilities (req dev))))), s)"
    by (simp add: injectDevices_eq)
next
  assume a: "ids \<noteq> [] \<and> drivers ''cdi'' = Some d \<and> updateSpec d = Some f"
  have inst: "cdiDeviceInstanceOf dev (map (normalizeDeviceID i) ids)
        = \<lparr>req = \<lparr>Driver = Driver (req dev), Count = 0,
                   DeviceIDs = map (normalizeDeviceID i) ids,
                   Capabilities = Capabilities (req dev), Options = Map.empty\<rparr>,
            selectedCaps = []\<rparr>"
    by (simp add: cdiDeviceInstanceOf_def)
  from assms a have "injectDevices h i drivers s dev
        = f s (cdiDeviceInstanceOf dev (map (normalizeDeviceID i) ids))"
    by (simp add: injectDevices_eq callUpdateSpec_def)
  then show "injectDevices h i drivers s dev
        = f s \<lparr>req = \<lparr>Driver = Driver (req dev), Count = 0,
                       DeviceIDs = map (normalizeDeviceID i) ids,
                       Capabilities = Capabilities (req dev), Options = Map.empty\<rparr>,
                selectedCaps = []\<rparr>"
    by (simp only: inst)
next
  assume "ids \<noteq> [] \<and> drivers ''cdi'' = Some d \<and> updateSpec d = None"
  with assms show "injectDevices h i drivers s dev = (Panic, s)"
    by (simp add: injectDevices_eq callUpdateSpec_def)
qed

theorem injectDevices_delegates_witness:
  "getRequestedDevicesIDs hostWithHook (req countedInstance) = Some [''0'', ''1'']
   \<and> Count (req countedInstance) = 2
   \<and> Options (req countedInstance) ''mode'' = Some ''exclusive''
   \<and> selectedCaps countedInstance = [''gpu'', ''compute'']
   \<and> injectDevices hostWithHook nvidiaInjector probeRegistered probeSpec countedInstance
     = (Return None,
        probeSpec\<lparr>specRest :=
          [\<lparr>req = \<lparr>Driver = ''nvidia'', Count = 0,
                    DeviceIDs = [''nvidia.com/gpu=0'', ''nvidia.com/gpu=1''],
                    Capabilities = [[''gpu'', ''compute'']], Options = Map.empty\<rparr>,
            selectedCaps = []\<rparr>]\<rparr>)
   \<and> injectDevices hostWithHook nvidiaInjector Map.empty probeSpec countedInstance
     = (Return (Some (wrapError ''no CDI device driver registered: ''
          (incompatibleDeviceRequest ''nvidia'' [[''gpu'', ''compute'']]))), probeSpec)
   \<and> injectDevices hostWithHook nvidiaInjector cdiRegistered baseSpec
        (gpuInstance 0 [''1'', ''vendor/class=7''])
     = cdiStub baseSpec
         \<lparr>req = \<lparr>Driver = ''nvidia'', Count = 0,
                  DeviceIDs = [''nvidia.com/gpu=1'', ''vendor/class=7''],
                  Capabilities = [[''gpu'', ''compute'']], Options = Map.empty\<rparr>,
           selectedCaps = []\<rparr>
   \<and> injectDevices hostWithHook nvidiaInjector probeRegistered probeSpec (gpuInstance 0 [])
     = (Return None, probeSpec)"
proof -
  let ?dev = "gpuInstance 0 [''1'', ''vendor/class=7'']"
  have counted: "getRequestedDevicesIDs hostWithHook (req countedInstance) = Some [''0'', ''1'']"
    by (simp add: getRequestedDevicesIDs_def countToDevices_eq Itoa_def formatBits.simps
          upt_conv_Cons example_defs)
  have ids: "getRequestedDevicesIDs hostWithHook (req ?dev) = Some [''1'', ''vendor/class=7'']"
    by (simp add: getRequestedDevicesIDs_def example_defs)
  have none: "getRequestedDevicesIDs hostWithHook (req (gpuInstance 0 [])) = Some []"
    by (simp add: getRequestedDevicesIDs_def example_defs)
  note of_counted = injectDevices_delegates [OF counted, of nvidiaInjector]
  note no_driver = of_counted [THEN conjunct2, THEN conjunct2, THEN conjunct2, THEN conjunct1,
      rule_format]
  note probed = of_counted [THEN conjunct2, THEN conjunct2, THEN conjunct2, THEN conjunct2,
      THEN conjunct1, rule_format]
  note delegated = injectDevices_delegates [OF ids, of nvidiaInjector, THEN conjunct2,
      THEN conjunct2, THEN conjunct2, THEN conjunct2, THEN conjunct1, rule_format]
  note no_devices = injectDevices_delegates [OF none, THEN conjunct1, rule_format]
  have a: "injectDevices hostWithHook nvidiaInjector Map.empty probeSpec countedInstance
     = (Return (Some (wrapError ''no CDI device driver registered: ''
          (incompatibleDeviceRequest (Driver (req countedInstance))
             (Capabilities (req countedInstance))))), probeSpec)"
    by (rule no_driver) simp
  have p: "injectDevices hostWithHook nvidiaInjector probeRegistered probeSpec countedInstance
     = cdiProbe probeSpec
         \<lparr>req = \<lparr>Driver = Driver (req countedInstance), Count = 0,
                  DeviceIDs = map (normalizeDeviceID nvidiaInjector) [''0'', ''1''],
                  Capabilities = Capabilities (req countedInstance), Options = Map.empty\<rparr>,
           selectedCaps = []\<rparr>"
    by (rule probed [where d = "\<lparr>capset = None, updateSpec = Some cdiProbe\<rparr>"])
       (simp add: probeRegistered_def)
  have b: "injectDevices hostWithHook nvidiaInjector cdiRegistered baseSpec ?dev
     = cdiStub baseSpec
         \<lparr>req = \<lparr>Driver = Driver (req ?dev), Count = 0,
                  DeviceIDs = map (normalizeDeviceID nvidiaInjector) [''1'', ''vendor/class=7''],
                  Capabilities = Capabilities (req ?dev), Options = Map.empty\<rparr>,
           selectedCaps = []\<rparr>"
    by (rule delegated [where d = "\<lparr>capset = None, updateSpec = Some cdiStub\<rparr>"])
       (simp add: cdiRegistered_def)
  have c: "injectDevices hostWithHook nvidiaInjector probeRegistered probeSpec (gpuInstance 0 [])
     = (Return None, probeSpec)"
    using no_devices [of nvidiaInjector probeRegistered probeSpec]
    by (simp add: normalizeAll_map)
  have fields: "Count (req countedInstance) = 2"
    "Options (req countedInstance) ''mode'' = Some ''exclusive''"
    "selectedCaps countedInstance = [''gpu'', ''compute'']"
    "Driver (req countedInstance) = ''nvidia''"
    "Capabilities (req countedInstance) = [[''gpu'', ''compute'']]"
    by (simp_all add: countedInstance_def)
  show ?thesis
    using counted a p b c fields
    by (simp add: gpuInstance_def gpuRequest_def normalizeDeviceID_eq nvidiaInjector_def
          cdiProbe_def probeSpec_def)
qed

section \<open>Fallback in the composite dispatcher\<close>

text \<open>
  C6, as stated, fails. On a host without the hook executable \<open>setNvidiaGPUs\<close>
  appends its two environment entries and then fails; \<open>injectDevices\<close> with a
  registered \<open>cdi\<close> driver succeeds. The composite of the two, in this order,
  reports success, and the specification it leaves holds the environment entries of
  the failed attempt besides the mutation of the second handler: it is not the
  specification the second handler alone produces.
\<close>

theorem firstSuccessful_keeps_failed_attempt_counterexample:
  "setNvidiaGPUs hostWithoutHook baseSpec (gpuInstance 0 [''0''])
     = (Return (Some (execError ''nvidia-container-runtime-hook'')),
        baseSpec\<lparr>
          Process := Some \<lparr>Env = [''PATH=/bin'', ''NVIDIA_VISIBLE_DEVICES=0'',
                                   ''NVIDIA_DRIVER_CAPABILITIES=compute''],
                            processRest = ()\<rparr>\<rparr>)
   \<and> injectDevices hostWithHook nvidiaInjector cdiRegistered baseSpec (gpuInstance 0 [''0''])
     = (Return None, baseSpec\<lparr>specRest := [''nvidia.com/gpu=0'']\<rparr>)
   \<and> firstSuccessful
       [Some (setNvidiaGPUs hostWithoutHook), Some (injectDevices hostWithHook nvidiaInjector cdiRegistered)]
       baseSpec (gpuInstance 0 [''0''])
     = (Return None,
        baseSpec\<lparr>
          Process := Some \<lparr>Env = [''PATH=/bin'', ''NVIDIA_VISIBLE_DEVICES=0'',
                                   ''NVIDIA_DRIVER_CAPABILITIES=compute''],
                            processRest = ()\<rparr>,
          specRest := [''nvidia.com/gpu=0'']\<rparr>)
   \<and> snd (firstSuccessful
       [Some (setNvidiaGPUs hostWithoutHook), Some (injectDevices hostWithHook nvidiaInjector cdiRegistered)]
       baseSpec (gpuInstance 0 [''0'']))
     \<noteq> snd (injectDevices hostWithHook nvidiaInjector cdiRegistered baseSpec (gpuInstance 0 [''0'']))"
proof -
  have A: "setNvidiaGPUs hostWithoutHook baseSpec (gpuInstance 0 [''0''])
     = (Return (Some (execError ''nvidia-container-runtime-hook'')),
        baseSpec\<lparr>
          Process := Some \<lparr>Env = [''PATH=/bin'', ''NVIDIA_VISIBLE_DEVICES=0'',
                                   ''NVIDIA_DRIVER_CAPABILITIES=compute''],
                            processRest = ()\<rparr>\<rparr>)"
    by (rule ids0_no_hook)
  have B: "injectDevices hostWithHook nvidiaInjector cdiRegistered baseSpec (gpuInstance 0 [''0''])
     = (Return None, baseSpec\<lparr>specRest := [''nvidia.com/gpu=0'']\<rparr>)"
    by (simp add: ids0_cdi) (simp add: baseSpec_def)
  have AB: "firstSuccessful
       [Some (setNvidiaGPUs hostWithoutHook), Some (injectDevices hostWithHook nvidiaInjector cdiRegistered)]
       baseSpec (gpuInstance 0 [''0''])
     = (Return None,
        baseSpec\<lparr>
          Process := Some \<lparr>Env = [''PATH=/bin'', ''NVIDIA_VISIBLE_DEVICES=0'',
                                   ''NVIDIA_DRIVER_CAPABILITIES=compute''],
                            processRest = ()\<rparr>,
          specRest := [''nvidia.com/gpu=0'']\<rparr>)"
    by (simp add: firstSuccessful_def A ids0_cdi) (simp add: baseSpec_def)
  have "snd (firstSuccessful
       [Some (setNvidiaGPUs hostWithoutHook), Some (injectDevices hostWithHook nvidiaInjector cdiRegistered)]
       baseSpec (gpuInstance 0 [''0'']))
     \<noteq> snd (injectDevices hostWithHook nvidiaInjector cdiRegistered baseSpec (gpuInstance 0 [''0'']))"
    unfolding AB B by (simp add: baseSpec_def)
  with A B AB show ?thesis by (intro conjI)
qed

text \<open>
  C6, amended. For every composite \<open>[A, B]\<close> where \<open>A\<close> fails on the given
  specification and \<open>B\<close> succeeds on the specification as \<open>A\<close> left it, the
  dispatch reports success and the resulting specification is the one \<open>B\<close>
  produced from there (nothing is rolled back); when the failed attempt of \<open>A\<close>
  left the specification as it was, this is exactly the mutation of \<open>B\<close>.
\<close>

theorem firstSuccessful_fallback:
  assumes "A s dev = (Return (Some err), s1)" and "B s1 dev = (Return None, s2)"
  shows "firstSuccessful [Some A, Some B] s dev = (Return None, s2)
         \<and> (s1 = s \<longrightarrow> firstSuccessful [Some A, Some B] s dev = (Return None, snd (B s dev)))"
proof -
  have "firstSuccessful [Some A, Some B] s dev
        = firstSuccessful_loop (errors_Join [None, Some err]) [Some B] s1 dev"
    using assms(1) by (simp add: firstSuccessful_def)
  also have "\<dots> = (Return None, s2)"
    using assms(2) by simp
  finally have run: "firstSuccessful [Some A, Some B] s dev = (Return None, s2)" .
  moreover have "s1 = s \<longrightarrow> s2 = snd (B s dev)"
    using assms(2) by auto
  ultimately show ?thesis by simp
qed

theorem firstSuccessful_fallback_witness:
  "firstSuccessful
     [Some (injectDevices hostWithHook nvidiaInjector noDrivers), Some (setNvidiaGPUs hostWithHook)]
     baseSpec (gpuInstance 1 [])
   = (Return None, snd (setNvidiaGPUs hostWithHook baseSpec (gpuInstance 1 [])))
   \<and> firstSuccessful
       [Some (setNvidiaGPUs hostWithoutHook), Some (injectDevices hostWithHook nvidiaInjector cdiRegistered)]
       baseSpec (gpuInstance 0 [''0''])
     = (Return None,
        baseSpec\<lparr>
          Process := Some \<lparr>Env = [''PATH=/bin'', ''NVIDIA_VISIBLE_DEVICES=0'',
                                   ''NVIDIA_DRIVER_CAPABILITIES=compute''],
                            processRest = ()\<rparr>,
          specRest := [''nvidia.com/gpu=0'']\<rparr>)"
proof -
  have B2: "injectDevices hostWithHook nvidiaInjector cdiRegistered
       (baseSpec\<lparr>
          Process := Some \<lparr>Env = [''PATH=/bin'', ''NVIDIA_VISIBLE_DEVICES=0'',
                                   ''NVIDIA_DRIVER_CAPABILITIES=compute''],
                            processRest = ()\<rparr>\<rparr>) (gpuInstance 0 [''0''])
     = (Return None,
        baseSpec\<lparr>
          Process := Some \<lparr>Env = [''PATH=/bin'', ''NVIDIA_VISIBLE_DEVICES=0'',
                                   ''NVIDIA_DRIVER_CAPABILITIES=compute''],
                            processRest = ()\<rparr>,
          specRest := [''nvidia.com/gpu=0'']\<rparr>)"
    by (simp add: ids0_cdi) (simp add: baseSpec_def)
  from firstSuccessful_fallback
         [where A = "injectDevices hostWithHook nvidiaInjector noDrivers"
            and B = "setNvidiaGPUs hostWithHook", OF count1_no_cdi count1_hook,
          THEN conjunct2]
    firstSuccessful_fallback
         [where A = "setNvidiaGPUs hostWithoutHook"
            and B = "injectDevices hostWithHook nvidiaInjector cdiRegistered", OF ids0_no_hook B2,
          THEN conjunct1]
  show ?thesis by simp
qed

section \<open>Requests that set both a count and device identifiers\<close>

text \<open>
  C1 at a request with \<open>Count = 2\<close> and \<open>DeviceIDs = ["0"]\<close>. \<open>setNvidiaGPUs\<close>
  rejects it with \<open>errConflictCountDeviceIDs\<close> and leaves the specification alone.
  \<open>injectDevices\<close> has no such check: with a \<open>cdi\<close> driver registered it
  returns nil and the device is injected, without one it fails with the error
  about the missing driver; and the composite that tries \<open>injectDevices\<close> first
  succeeds, so the check of \<open>setNvidiaGPUs\<close> is never reached.
\<close>

theorem injectDevices_accepts_conflicting_request:
  "Count (req (gpuInstance 2 [''0''])) \<noteq> 0
   \<and> DeviceIDs (req (gpuInstance 2 [''0''])) \<noteq> []
   \<and> setNvidiaGPUs hostWithHook baseSpec (gpuInstance 2 [''0''])
     = (Return (Some errConflictCountDeviceIDs), baseSpec)
   \<and> injectDevices hostWithHook nvidiaInjector cdiRegistered baseSpec (gpuInstance 2 [''0''])
     = (Return None, baseSpec\<lparr>specRest := [''nvidia.com/gpu=0'']\<rparr>)
   \<and> injectDevices hostWithHook nvidiaInjector noDrivers baseSpec (gpuInstance 2 [''0''])
     = (Return (Some (wrapError ''no CDI device driver registered: ''
          (incompatibleDeviceRequest ''nvidia'' [[''gpu'', ''compute'']]))), baseSpec)
   \<and> firstSuccessful
       [Some (injectDevices hostWithHook nvidiaInjector cdiRegistered), Some (setNvidiaGPUs hostWithHook)]
       baseSpec (gpuInstance 2 [''0''])
     = (Return None, baseSpec\<lparr>specRest := [''nvidia.com/gpu=0'']\<rparr>)"
proof (intro conjI)
  show "Count (req (gpuInstance 2 [''0''])) \<noteq> 0"
    by (simp add: example_defs)
  show "DeviceIDs (req (gpuInstance 2 [''0''])) \<noteq> []"
    by (simp add: example_defs)
  show "setNvidiaGPUs hostWithHook baseSpec (gpuInstance 2 [''0''])
     = (Return (Some errConflictCountDeviceIDs), baseSpec)"
    by (rule setNvidiaGPUs_rejects_conflict) (simp_all add: example_defs)
  show cdi: "injectDevices hostWithHook nvidiaInjector cdiRegistered baseSpec (gpuInstance 2 [''0''])
     = (Return None, baseSpec\<lparr>specRest := [''nvidia.com/gpu=0'']\<rparr>)"
    by (simp add: injectDevices_unfold example_defs)
  show "injectDevices hostWithHook nvidiaInjector noDrivers baseSpec (gpuInstance 2 [''0''])
     = (Return (Some (wrapError ''no CDI device driver registered: ''
          (incompatibleDeviceRequest ''nvidia'' [[''gpu'', ''compute'']]))), baseSpec)"
    by (simp add: injectDevices_unfold example_defs)
  show "firstSuccessful
       [Some (injectDevices hostWithHook nvidiaInjector cdiRegistered), Some (setNvidiaGPUs hostWithHook)]
       baseSpec (gpuInstance 2 [''0''])
     = (Return None, baseSpec\<lparr>specRest := [''nvidia.com/gpu=0'']\<rparr>)"
    by (simp add: firstSuccessful_def cdi)
qed

end
